theory Spec2Isabelle
  imports Complex_Main "HOL-Library.Char_ord" "HOL-Library.List_Lexorder" "HOL-Library.Sublist"
begin

section \<open>Python strings\<close>

text \<open>
  A Python \<open>str\<close> is modelled as a \<open>string\<close> whose characters are read as the code
  points U+0000 to U+00FF. On that range \<open>str.lower()\<close> maps one character to one
  character, and the word characters of the \<open>re\<close> module (\<open>\w\<close>: alphanumeric
  or underscore) are the ones listed in \<open>py_is_word\<close>. The order on strings
  (\<open>HOL-Library.List_Lexorder\<close> over \<open>HOL-Library.Char_ord\<close>) is the lexicographic
  order by code point that Python's \<open>sorted\<close> uses on strings.
\<close>

definition py_lower_char :: "char \<Rightarrow> char" where
  "py_lower_char c =
     (let n = (of_char c :: nat)
      in if (65 \<le> n \<and> n \<le> 90) \<or> (192 \<le> n \<and> n \<le> 222 \<and> n \<noteq> 215)
         then char_of (n + 32) else c)"

definition py_lower :: "string \<Rightarrow> string" where
  "py_lower s = map py_lower_char s"

definition py_is_word :: "char \<Rightarrow> bool" where
  "py_is_word c =
     (let n = (of_char c :: nat)
      in (48 \<le> n \<and> n \<le> 57) \<or> (65 \<le> n \<and> n \<le> 90) \<or> n = 95 \<or> (97 \<le> n \<and> n \<le> 122)
         \<or> n \<in> {170, 178, 179, 181, 185, 186, 188, 189, 190}
         \<or> (192 \<le> n \<and> n \<noteq> 215 \<and> n \<noteq> 247))"

text \<open>
  \<open>re.search(r'\b' + re.escape(skill) + r'\b', text)\<close>: \<open>re.escape\<close> makes the skill a
  literal, so the pattern matches where the skill occurs with a word boundary on both
  sides. \<open>\b\<close> holds at a position when exactly one of the characters before and after
  it is a word character; outside the text counts as a non-word character.
  \<open>search_word_from prev_word skill rest\<close> scans the remaining text \<open>rest\<close>, where
  \<open>prev_word\<close> says whether the character before \<open>rest\<close> is a word character.
\<close>

definition word_boundary :: "bool \<Rightarrow> string \<Rightarrow> bool" where
  "word_boundary prev_word rest =
     (prev_word \<noteq> (case rest of [] \<Rightarrow> False | c # _ \<Rightarrow> py_is_word c))"

definition match_here :: "bool \<Rightarrow> string \<Rightarrow> string \<Rightarrow> bool" where
  "match_here prev_word skill rest =
     (prefix skill rest \<and> word_boundary prev_word rest \<and>
      word_boundary (if skill = [] then prev_word else py_is_word (last skill))
        (drop (length skill) rest))"

fun search_word_from :: "bool \<Rightarrow> string \<Rightarrow> string \<Rightarrow> bool" where
  "search_word_from prev_word skill [] = match_here prev_word skill []"
| "search_word_from prev_word skill (c # cs) =
     (match_here prev_word skill (c # cs) \<or> search_word_from (py_is_word c) skill cs)"

definition re_search_word :: "string \<Rightarrow> string \<Rightarrow> bool" where
  "re_search_word skill text = search_word_from False skill text"

section \<open>The skill taxonomy\<close>

text \<open>
  \<open>SkillAnalyzer.skill_categories\<close>: a dict from category to a set of skills. The dict
  keeps its insertion order; the sets are written as the lists of their literals. The
  iteration order of a Python set is not specified, and the analyzer only ever passes
  what it collects from one through \<open>set(...)\<close> or \<open>sorted(...)\<close>.
\<close>

definition skill_categories :: "(string \<times> string list) list" where
  "skill_categories =
    [(''programming_languages'',
        [''python'', ''java'', ''javascript'', ''typescript'', ''c++'', ''c#'', ''php'',
         ''ruby'', ''go'', ''rust'', ''swift'', ''kotlin'', ''scala'', ''r'', ''matlab'',
         ''sql'', ''perl'', ''haskell'']),
     (''web_technologies'',
        [''html'', ''css'', ''sass'', ''less'', ''react'', ''angular'', ''vue'', ''node.js'',
         ''express'', ''django'', ''flask'', ''spring'', ''laravel'', ''jquery'',
         ''bootstrap'', ''webpack'', ''gatsby'']),
     (''databases'',
        [''mysql'', ''postgresql'', ''mongodb'', ''redis'', ''elasticsearch'', ''oracle'',
         ''sqlite'', ''cassandra'', ''dynamodb'', ''neo4j'', ''mariadb'', ''couchdb'',
         ''firebase'']),
     (''cloud_devops'',
        [''aws'', ''azure'', ''gcp'', ''docker'', ''kubernetes'', ''jenkins'', ''gitlab'',
         ''github actions'', ''terraform'', ''ansible'', ''chef'', ''puppet'', ''circleci'',
         ''nginx'', ''apache'']),
     (''data_science_ml'',
        [''machine learning'', ''deep learning'', ''tensorflow'', ''pytorch'',
         ''scikit-learn'', ''pandas'', ''numpy'', ''matplotlib'', ''keras'', ''opencv'',
         ''nlp'', ''computer vision'']),
     (''soft_skills'',
        [''leadership'', ''communication'', ''teamwork'', ''problem solving'',
         ''project management'', ''analytical'', ''time management'', ''creativity'',
         ''collaboration'', ''adaptability''])]"

section \<open>The skill analyzer\<close>

text \<open>
  The arguments of the analyzer are Python values: a \<open>str\<close>, \<open>None\<close> (the default of
  \<open>job_description\<close>), or a value of another type, for which an integer stands.
\<close>

datatype pyarg = PyNone | PyStr string | PyInt int

fun truthy :: "pyarg \<Rightarrow> bool" where
  "truthy PyNone = False"
| "truthy (PyStr s) = (s \<noteq> [])"
| "truthy (PyInt i) = (i \<noteq> 0)"

datatype py_exception = AttributeError | TypeError

type_synonym skill_profile = "(string \<times> string list) list"

record skill_comparison =
  resume_skills :: skill_profile
  job_skills :: skill_profile
  matched_skills :: "string list"
  missing_skills :: "string list"
  skill_match_percentage :: real

datatype skill_result = SkillProfile skill_profile | SkillComparison skill_comparison

text \<open>
  The two nested loops over \<open>skill_categories\<close> that fill a \<open>defaultdict(list)\<close>: a
  category becomes a key when its first skill is appended, so the keys are the categories
  with at least one skill found, in the order of the taxonomy.
\<close>

definition find_skills :: "string \<Rightarrow> skill_profile" where
  "find_skills text_lower =
     filter (\<lambda>(category, found). found \<noteq> [])
       (map (\<lambda>(category, skills). (category, filter (\<lambda>skill. re_search_word skill text_lower) skills))
          skill_categories)"

definition dict_get :: "skill_profile \<Rightarrow> string \<Rightarrow> string list" where
  "dict_get d category = (case map_of d category of None \<Rightarrow> [] | Some skills \<Rightarrow> skills)"

text \<open>\<open>a & b\<close> and \<open>a - b\<close> on the sets \<open>a = set(xs)\<close>, \<open>b = set(ys)\<close>.\<close>

definition set_inter :: "string list \<Rightarrow> string list \<Rightarrow> string list" where
  "set_inter xs ys = filter (\<lambda>x. x \<in> set ys) (remdups xs)"

definition set_diff :: "string list \<Rightarrow> string list \<Rightarrow> string list" where
  "set_diff xs ys = filter (\<lambda>x. x \<notin> set ys) (remdups xs)"

definition sorted_profile :: "skill_profile \<Rightarrow> skill_profile" where
  "sorted_profile d = map (\<lambda>(category, skills). (category, sort skills)) d"

definition compare_skills :: "skill_profile \<Rightarrow> skill_profile \<Rightarrow> skill_comparison" where
  "compare_skills found job =
     (let matched = concat (map (\<lambda>(category, skills). set_inter (dict_get found category) skills) job);
          missing = concat (map (\<lambda>(category, skills). set_diff skills (dict_get found category)) job)
      in \<lparr> resume_skills = sorted_profile found,
           job_skills = sorted_profile job,
           matched_skills = sort matched,
           missing_skills = sort missing,
           skill_match_percentage =
             real (length matched) / real (max (length (remdups (concat (map snd job)))) 1) * 100 \<rparr>)"

text \<open>The body of the \<open>try\<close> block of \<open>analyze_skills\<close>; \<open>Inl\<close> is a raised exception.\<close>

definition analyze_skills_body :: "pyarg \<Rightarrow> pyarg \<Rightarrow> py_exception + skill_result" where
  "analyze_skills_body resume_text job_description =
     (case resume_text of
        PyStr r \<Rightarrow>
          (let found_skills = find_skills (py_lower r)
           in if truthy job_description then
                (case job_description of
                   PyStr j \<Rightarrow> Inr (SkillComparison (compare_skills found_skills (find_skills (py_lower j))))
                 | _ \<Rightarrow> Inl AttributeError)
              else Inr (SkillProfile (sorted_profile found_skills)))
      | _ \<Rightarrow> Inl AttributeError)"

text \<open>\<open>except Exception\<close>: the error is logged and the empty dict returned.\<close>

definition analyze_skills :: "pyarg \<Rightarrow> pyarg \<Rightarrow> py_exception + skill_result" where
  "analyze_skills resume_text job_description =
     (case analyze_skills_body resume_text job_description of
        Inl e \<Rightarrow> Inr (SkillProfile [])
      | Inr result \<Rightarrow> Inr result)"

text \<open>
  \<open>d.get(key, [])\<close> on the dict an \<open>analyze_skills\<close> call returned, for the keys
  whose value is a list of strings: a category of a profile, and \<open>matched_skills\<close> and
  \<open>missing_skills\<close> of a comparison.
\<close>

definition result_get :: "skill_result \<Rightarrow> string \<Rightarrow> string list" where
  "result_get result key =
     (case result of
        SkillProfile d \<Rightarrow> dict_get d key
      | SkillComparison c \<Rightarrow>
          (if key = ''matched_skills'' then matched_skills c
           else if key = ''missing_skills'' then missing_skills c
           else []))"



subsection \<open>Skill suggestions\<close>

definition priority_categories :: "string list" where
  "priority_categories =
     [''programming_languages'', ''web_technologies'', ''cloud_devops'', ''data_science_ml'']"

definition replace_underscores :: "string \<Rightarrow> string" where
  "replace_underscores s = map (\<lambda>c. if c = CHR ''_'' then CHR '' '' else c) s"

definition learn_suggestion :: "string \<Rightarrow> string \<Rightarrow> string" where
  "learn_suggestion category skill =
     ''Consider learning '' @ skill @ '' to improve your '' @ replace_underscores category @ '' skills''"

definition add_suggestion :: "string \<Rightarrow> string" where
  "add_suggestion skill = ''Consider adding '' @ skill @ '' to your skillset''"

text \<open>\<open>xs[:n]\<close>: a negative \<open>n\<close> counts from the end.\<close>

definition slice_to :: "'a list \<Rightarrow> int \<Rightarrow> 'a list" where
  "slice_to xs n = (if 0 \<le> n then take (nat n) xs else take (length xs - nat (- n)) xs)"

text \<open>
  The first loop, over \<open>priority_categories\<close>. A dict is an association list in
  insertion order (its keys are distinct); \<open>category in missing_skills\<close> and
  \<open>missing_skills[category]\<close> are the lookup \<open>map_of\<close>.
\<close>

definition add_priority :: "skill_profile \<Rightarrow> string list" where
  "add_priority missing =
     concat (map (\<lambda>category.
        (case map_of missing category of
           None \<Rightarrow> []
         | Some skills \<Rightarrow> map (learn_suggestion category) (take 2 skills)))
       priority_categories)"

text \<open>
  The second loop, over the remaining categories with the skills stored under them; it
  breaks once \<open>num_suggestions\<close> suggestions are there.
\<close>

fun add_remaining :: "int \<Rightarrow> skill_profile \<Rightarrow> string list \<Rightarrow> string list" where
  "add_remaining num_suggestions [] suggestions = suggestions"
| "add_remaining num_suggestions ((category, skills) # rest) suggestions =
     (if int (length suggestions) \<ge> num_suggestions then suggestions
      else add_remaining num_suggestions rest
             (suggestions @ map add_suggestion (take 1 skills)))"

text \<open>
  The arguments of \<open>get_skill_suggestions\<close>: \<open>None\<close> stands for a value that is not a
  dict (not an integer), on which \<open>in\<close> (the comparison \<open><\<close>) raises \<open>TypeError\<close>.
\<close>

definition get_skill_suggestions_body ::
  "skill_profile option \<Rightarrow> int option \<Rightarrow> py_exception + string list" where
  "get_skill_suggestions_body missing_arg num_suggestions =
     (case missing_arg of
        None \<Rightarrow> Inl TypeError
      | Some missing \<Rightarrow>
          (let suggestions = add_priority missing
           in case num_suggestions of
                None \<Rightarrow> Inl TypeError
              | Some n \<Rightarrow>
                  (let suggestions' =
                         (if int (length suggestions) < n
                          then add_remaining n
                                 (filter (\<lambda>(cat, skills). cat \<notin> set priority_categories) missing)
                                 suggestions
                          else suggestions)
                   in Inr (slice_to suggestions' n))))"

definition get_skill_suggestions ::
  "skill_profile option \<Rightarrow> int option \<Rightarrow> py_exception + string list" where
  "get_skill_suggestions missing_arg num_suggestions =
     (case get_skill_suggestions_body missing_arg num_suggestions of
        Inl e \<Rightarrow> Inr []
      | Inr suggestions \<Rightarrow> Inr suggestions)"

section \<open>The recommendation composer\<close>

record recommendations =
  strengths :: "string list"
  weaknesses :: "string list"
  action_items :: "string list"

text \<open>\<open>str(n)\<close> for the length of a list, \<open>sep.join(xs)\<close>, and \<open>sub in s\<close> on strings.\<close>

fun show_nat :: "nat \<Rightarrow> string" where
  "show_nat n =
     (if n < 10 then [char_of (48 + n)] else show_nat (n div 10) @ [char_of (48 + n mod 10)])"

fun py_join :: "string \<Rightarrow> string list \<Rightarrow> string" where
  "py_join sep [] = []"
| "py_join sep [x] = x"
| "py_join sep (x # y # ys) = x @ sep @ py_join sep (y # ys)"

fun py_in :: "string \<Rightarrow> string \<Rightarrow> bool" where
  "py_in sub [] = (sub = [])"
| "py_in sub (c # cs) = (prefix sub (c # cs) \<or> py_in sub cs)"

text \<open>The \<open>if\<close>/\<open>elif\<close>/\<open>else\<close> on the ATS score.\<close>

definition ats_tier :: "real \<Rightarrow> recommendations \<Rightarrow> recommendations" where
  "ats_tier ats_score rec =
     (if ats_score \<ge> 80 then
        rec\<lparr>strengths := strengths rec @ [''Strong ATS compatibility'']\<rparr>
      else if ats_score \<ge> 60 then
        rec\<lparr>strengths := strengths rec @ [''Good basic ATS formatting''],
            action_items := action_items rec @
              [''Add more industry-specific keywords'',
               ''Enhance section headers for better visibility'']\<rparr>
      else
        rec\<lparr>weaknesses := weaknesses rec @ [''Needs ATS optimization''],
            action_items := action_items rec @
              [''Add relevant keywords from the job description'',
               ''Improve section headers (Experience, Education, Skills)'',
               ''Use bullet points for better readability'',
               ''Include contact information and professional links'']\<rparr>)"

text \<open>\<open>if skill_analysis:\<close> holds for a dict that is not empty.\<close>

fun result_truthy :: "skill_result \<Rightarrow> bool" where
  "result_truthy (SkillProfile d) = (d \<noteq> [])"
| "result_truthy (SkillComparison c) = True"

definition skill_rules :: "skill_result \<Rightarrow> recommendations \<Rightarrow> recommendations" where
  "skill_rules skill_analysis rec =
     (if result_truthy skill_analysis then
        (let matched = result_get skill_analysis ''matched_skills'';
             missing = result_get skill_analysis ''missing_skills'';
             rec1 = (if matched \<noteq> [] then
                       rec\<lparr>strengths := strengths rec @
                             [''Strong match in '' @ show_nat (length matched) @ '' key skills'']\<rparr>
                     else rec)
         in if missing \<noteq> [] then
              rec1\<lparr>weaknesses := weaknesses rec1 @
                      [''Missing '' @ show_nat (length missing) @ '' relevant skills''],
                    action_items := action_items rec1 @
                      [''Consider developing: '' @ py_join '', '' (take 3 missing),
                       ''Focus on acquiring the missing technical skills'',
                       ''Highlight transferable skills that compensate for gaps'']\<rparr>
            else rec1)
      else rec)"

text \<open>
  \<open>any(s.lower() in item.lower() for item in action_items)\<close>, and the loop that appends
  each string of a list unless it is already listed that way. The composer runs this
  loop twice: over the improvements of the LLM and over the format recommendations.
\<close>

definition already_listed :: "string \<Rightarrow> string list \<Rightarrow> bool" where
  "already_listed s items = list_ex (\<lambda>item. py_in (py_lower s) (py_lower item)) items"

fun append_unlisted :: "string list \<Rightarrow> string list \<Rightarrow> string list" where
  "append_unlisted [] items = items"
| "append_unlisted (s # rest) items =
     append_unlisted rest (if already_listed s items then items else items @ [s])"

definition integrate_llm :: "string list option \<Rightarrow> recommendations \<Rightarrow> recommendations" where
  "integrate_llm llm_improvements rec =
     (case llm_improvements of
        None \<Rightarrow> rec
      | Some improvements \<Rightarrow> rec\<lparr>action_items := append_unlisted improvements (action_items rec)\<rparr>)"

definition format_recommendations :: "string list" where
  "format_recommendations =
     [''Use consistent date formats'',
      ''Add more bullet points for achievements'',
      ''Include clear section headers'',
      ''Add quantifiable achievements'']"

definition format_pass :: "real \<Rightarrow> recommendations \<Rightarrow> recommendations" where
  "format_pass ats_score rec =
     (if ats_score < 80
      then rec\<lparr>action_items := append_unlisted format_recommendations (action_items rec)\<rparr>
      else rec)"

text \<open>The dict \<open>recommendations\<close> when control reaches the end of the format pass.\<close>

definition composed :: "skill_result \<Rightarrow> real \<Rightarrow> string list option \<Rightarrow> recommendations" where
  "composed skill_analysis ats_score llm_improvements =
     format_pass ats_score
       (integrate_llm llm_improvements
          (skill_rules skill_analysis
             (ats_tier ats_score \<lparr>strengths = [], weaknesses = [], action_items = []\<rparr>)))"

text \<open>
  The function ends with two \<open>return recommendations\<close> statements, one after the other.
  A statement runs only while no \<open>return\<close> has been executed; the flow records which
  \<open>return\<close> ended the call.
\<close>

datatype return_site = FirstReturn | SecondReturn

datatype flow = Running recommendations | Returned return_site recommendations

fun return_stmt :: "return_site \<Rightarrow> flow \<Rightarrow> flow" where
  "return_stmt site (Running rec) = Returned site rec"
| "return_stmt site (Returned earlier rec) = Returned earlier rec"

definition generate_recommendations_flow ::
  "skill_result \<Rightarrow> real \<Rightarrow> string list option \<Rightarrow> flow" where
  "generate_recommendations_flow skill_analysis ats_score llm_improvements =
     return_stmt SecondReturn
       (return_stmt FirstReturn
          (Running (composed skill_analysis ats_score llm_improvements)))"

text \<open>The value of the call; a call that ends without \<open>return\<close> gives \<open>None\<close>.\<close>

definition generate_recommendations ::
  "skill_result \<Rightarrow> real \<Rightarrow> string list option \<Rightarrow> recommendations option" where
  "generate_recommendations skill_analysis ats_score llm_improvements =
     (case generate_recommendations_flow skill_analysis ats_score llm_improvements of
        Running rec \<Rightarrow> None
      | Returned site rec \<Rightarrow> Some rec)"

section \<open>The LLM analysis with its fallback\<close>

text \<open>
  \<open>get_enhanced_llm_analysis\<close> calls two methods of the global \<open>llm_engine\<close>, which
  \<open>app.py\<close> does not bind; the engine is a parameter here. A call of the engine returns
  a dict or raises: a \<open>ValueError\<close>, another subclass of \<open>Exception\<close>, or an exception
  outside \<open>Exception\<close> (such as \<open>KeyboardInterrupt\<close>); each carries \<open>str(e)\<close>.
\<close>

datatype json = JNum real | JStr string | JList "json list" | JDict "(string \<times> json) list"

datatype llm_raised = ValueError string | OtherException string | NonException string

record llm_engine =
  analyze_resume :: "string \<Rightarrow> string \<Rightarrow> llm_raised + json"
  analyze_score_matrix ::
    "string \<Rightarrow> string \<Rightarrow> real \<Rightarrow> real \<Rightarrow> skill_result \<Rightarrow> llm_raised + json"

definition llm_try_body ::
  "llm_engine \<Rightarrow> string \<Rightarrow> string \<Rightarrow> real \<Rightarrow> real \<Rightarrow> skill_result \<Rightarrow> llm_raised + (json \<times> json)" where
  "llm_try_body engine resume_text job_description ats_score match_score skill_analysis =
     (case analyze_resume engine resume_text job_description of
        Inl e \<Rightarrow> Inl e
      | Inr llm_analysis \<Rightarrow>
          (case analyze_score_matrix engine resume_text job_description ats_score match_score
                  skill_analysis of
             Inl e \<Rightarrow> Inl e
           | Inr score_matrix \<Rightarrow> Inr (llm_analysis, score_matrix)))"





section \<open>Notions used to state the properties\<close>

text \<open>
  \<open>SkillAnalyzer.all_skills\<close>, the union of the sets of all categories, and the skills
  of the taxonomy that the analyzer detects in a text.
\<close>

definition all_skills :: "string set" where
  "all_skills = set (concat (map snd skill_categories))"

definition detected_skills :: "string \<Rightarrow> string set" where
  "detected_skills text = {skill \<in> all_skills. re_search_word skill (py_lower text)}"

text \<open>
  The skill profiles inside a result, and what makes a profile valid: every category is
  one of the taxonomy, its skills belong to the set of that category, and none is listed
  twice.
\<close>

fun profiles_of :: "skill_result \<Rightarrow> skill_profile list" where
  "profiles_of (SkillProfile d) = [d]"
| "profiles_of (SkillComparison c) = [resume_skills c, job_skills c]"

definition valid_entry :: "string \<times> string list \<Rightarrow> bool" where
  "valid_entry entry =
     (case map_of skill_categories (fst entry) of
        None \<Rightarrow> False
      | Some taxonomy \<Rightarrow> list_all (\<lambda>skill. skill \<in> set taxonomy) (snd entry) \<and> distinct (snd entry))"

definition valid_profile :: "skill_profile \<Rightarrow> bool" where
  "valid_profile d = list_all valid_entry d"

text \<open>
  The suggestions in the words of the specification, as pairs of a category and a skill:
  the priority categories in their fixed order with at most two skills each, then the
  other categories in the insertion order of the dict with at most one skill each. A
  pair is rendered as the sentence of its group.
\<close>

definition suggestion_plan :: "skill_profile \<Rightarrow> (string \<times> string) list" where
  "suggestion_plan missing =
     concat (map (\<lambda>category. map (Pair category) (take 2 (dict_get missing category)))
               priority_categories)
     @ concat (map (\<lambda>(category, skills). map (Pair category) (take 1 skills))
                 (filter (\<lambda>(category, skills). category \<notin> set priority_categories) missing))"

definition render_suggestion :: "string \<times> string \<Rightarrow> string" where
  "render_suggestion p =
     (if fst p \<in> set priority_categories then learn_suggestion (fst p) (snd p)
      else add_suggestion (snd p))"

definition contributed :: "string \<Rightarrow> (string \<times> string) list \<Rightarrow> nat" where
  "contributed category plan = length (filter (\<lambda>p. fst p = category) plan)"

section \<open>Facts about the lists that stand for sets and dicts\<close>

lemma set_set_inter: "set (set_inter xs ys) = set xs \<inter> set ys"
  by (auto simp: set_inter_def)

lemma set_set_diff: "set (set_diff xs ys) = set xs - set ys"
  by (auto simp: set_diff_def)


lemma distinct_set_diff: "distinct (set_diff xs ys)"
  by (simp add: set_diff_def)

lemma mem_concat_filtered:
  "s \<in> set (concat (map snd (filter (\<lambda>(c, f). f \<noteq> []) (map (\<lambda>(c, ss). (c, filter P ss)) cats))))
     \<longleftrightarrow> s \<in> set (concat (map snd cats)) \<and> P s"
proof (induction cats)
  case Nil
  then show ?case by simp
next
  case (Cons a cats)
  obtain c ss where a: "a = (c, ss)" by (cases a)
  show ?case
  proof (cases "filter P ss = []")
    case True
    then have "\<not> (s \<in> set ss \<and> P s)" by (simp add: filter_empty_conv)
    then show ?thesis using Cons.IH True by (simp add: a) blast
  next
    case False
    then show ?thesis using Cons.IH by (simp add: a) blast
  qed
qed

lemma set_concat_filtered:
  "set (concat (map snd (filter (\<lambda>(c, f). f \<noteq> []) (map (\<lambda>(c, ss). (c, filter P ss)) cats))))
     = {s \<in> set (concat (map snd cats)). P s}"
  using mem_concat_filtered[of _ P cats] by blast




lemma set_union_per_category:
  "set (concat (map (\<lambda>(category, skills). set_inter (f category) skills) job))
     \<union> set (concat (map (\<lambda>(category, skills). set_diff skills (f category)) job))
   = set (concat (map snd job))"
proof (induction job)
  case Nil
  then show ?case by simp
next
  case (Cons a job)
  obtain c ss where a: "a = (c, ss)" by (cases a)
  let ?M = "concat (map (\<lambda>(category, skills). set_inter (f category) skills) job)"
  let ?D = "concat (map (\<lambda>(category, skills). set_diff skills (f category)) job)"
  have h: "set (set_inter (f c) ss) \<union> set (set_diff ss (f c)) = set ss"
    unfolding set_set_inter set_set_diff by blast
  have e1: "concat (map (\<lambda>(category, skills). set_inter (f category) skills) (a # job))
             = set_inter (f c) ss @ ?M" by (simp add: a)
  have e2: "concat (map (\<lambda>(category, skills). set_diff skills (f category)) (a # job))
             = set_diff ss (f c) @ ?D" by (simp add: a)
  have e3: "concat (map snd (a # job)) = ss @ concat (map snd job)" by (simp add: a)
  show ?case unfolding e1 e2 e3 set_append using h Cons.IH by blast
qed

lemma taxonomy_skills_distinct: "distinct (concat (map snd skill_categories))"
  by code_simp

lemma taxonomy_keys_distinct: "distinct (map fst skill_categories)"
  by code_simp

section \<open>Properties of the skill analyzer\<close>

text \<open>
  C10: for every resume text, \<open>analyze_skills\<close> with the empty string as job
  description returns what it returns when the job description is absent: the flat
  mapping from category to sorted skill list, never the comparison structure.
\<close>

theorem empty_job_description_as_absent:
  "analyze_skills (PyStr r) (PyStr []) = analyze_skills (PyStr r) PyNone
   \<and> analyze_skills (PyStr r) (PyStr []) = Inr (SkillProfile (sorted_profile (find_skills (py_lower r))))
   \<and> (\<forall>c. analyze_skills (PyStr r) (PyStr []) \<noteq> Inr (SkillComparison c))"
  by (simp add: analyze_skills_def analyze_skills_body_def)

lemma set_concat_find_skills:
  "set (concat (map snd (find_skills (py_lower t)))) = detected_skills t"
  unfolding find_skills_def detected_skills_def all_skills_def by (rule set_concat_filtered)


lemma analyze_skills_comparison:
  "j \<noteq> [] \<Longrightarrow> analyze_skills (PyStr r) (PyStr j)
     = Inr (SkillComparison (compare_skills (find_skills (py_lower r)) (find_skills (py_lower j))))"
  by (simp add: analyze_skills_def analyze_skills_body_def)

lemma matched_of_compare:
  "matched_skills (compare_skills found job)
     = sort (concat (map (\<lambda>(category, skills). set_inter (dict_get found category) skills) job))"
  by (simp add: compare_skills_def Let_def)

lemma missing_of_compare:
  "missing_skills (compare_skills found job)
     = sort (concat (map (\<lambda>(category, skills). set_diff skills (dict_get found category)) job))"
  by (simp add: compare_skills_def Let_def)


text \<open>
  C2: for every resume text and every job description (a string that is not empty, so
  that the comparison is made), the matched and the missing skills together are exactly
  the skills of the taxonomy detected in the job description.
\<close>

theorem matched_and_missing_cover_job_skills:
  assumes "j \<noteq> []"
  shows "\<exists>c. analyze_skills (PyStr r) (PyStr j) = Inr (SkillComparison c)
           \<and> set (matched_skills c) \<union> set (missing_skills c) = detected_skills j"
proof -
  let ?c = "compare_skills (find_skills (py_lower r)) (find_skills (py_lower j))"
  have "set (matched_skills ?c) \<union> set (missing_skills ?c)
          = set (concat (map snd (find_skills (py_lower j))))"
    unfolding matched_of_compare missing_of_compare set_sort
    by (rule set_union_per_category)
  then have "set (matched_skills ?c) \<union> set (missing_skills ?c) = detected_skills j"
    by (simp only: set_concat_find_skills)
  then show ?thesis using analyze_skills_comparison[OF assms, of r] by blast
qed

theorem matched_and_missing_cover_job_skills_witness:
  "''Python and Docker'' \<noteq> []
   \<and> (\<exists>c. analyze_skills (PyStr ''I write Java'') (PyStr ''Python and Docker'') = Inr (SkillComparison c)
           \<and> set (matched_skills c) \<union> set (missing_skills c) = detected_skills ''Python and Docker'')"
  using matched_and_missing_cover_job_skills[of "''Python and Docker''" "''I write Java''"] by simp



lemma taxonomy_entry_distinct:
  "distinct (concat (map snd cats)) \<Longrightarrow> (c, ss) \<in> set cats \<Longrightarrow> distinct ss"
  by (induction cats) auto

lemma valid_entry_found:
  assumes "(c, ss) \<in> set skill_categories"
  shows "valid_entry (c, sort (filter P ss))"
proof -
  have m: "map_of skill_categories c = Some ss"
    using taxonomy_keys_distinct assms by (rule map_of_is_SomeI)
  have d: "distinct ss" using taxonomy_skills_distinct assms by (rule taxonomy_entry_distinct)
  show ?thesis unfolding valid_entry_def by (simp add: m d list_all_iff)
qed

lemma valid_profile_found: "valid_profile (sorted_profile (find_skills t))"
proof -
  have "valid_entry e" if "e \<in> set (sorted_profile (find_skills t))" for e
  proof -
    from that obtain c ss where "(c, ss) \<in> set skill_categories"
      and "e = (c, sort (filter (\<lambda>skill. re_search_word skill t) ss))"
      unfolding sorted_profile_def find_skills_def by auto
    then show ?thesis by (simp add: valid_entry_found)
  qed
  then show ?thesis unfolding valid_profile_def list_all_iff by blast
qed


lemma analyze_skills_cases:
  assumes "analyze_skills a b = Inr result"
  shows "result = SkillProfile []
       \<or> (\<exists>r. result = SkillProfile (sorted_profile (find_skills (py_lower r))))
       \<or> (\<exists>r j. result = SkillComparison (compare_skills (find_skills (py_lower r)) (find_skills (py_lower j))))"
proof (cases "analyze_skills_body a b")
  case (Inl e)
  then show ?thesis using assms by (simp add: analyze_skills_def)
next
  case (Inr v)
  then have v: "v = result" using assms by (simp add: analyze_skills_def)
  show ?thesis
  proof (cases a)
    case (PyStr r)
    show ?thesis
    proof (cases "truthy b")
      case True
      then show ?thesis using Inr v PyStr
        by (cases b) (auto simp: analyze_skills_body_def)
    next
      case False
      then show ?thesis using Inr v PyStr by (auto simp: analyze_skills_body_def)
    qed
  qed (use Inr in \<open>simp_all add: analyze_skills_body_def\<close>)
qed

lemma resume_of_compare: "resume_skills (compare_skills found job) = sorted_profile found"
  by (simp add: compare_skills_def Let_def)

lemma job_of_compare: "job_skills (compare_skills found job) = sorted_profile job"
  by (simp add: compare_skills_def Let_def)

lemma valid_profile_Nil: "valid_profile []"
  by (simp add: valid_profile_def)

text \<open>
  C8: whatever the arguments, every skill profile in the result of \<open>analyze_skills\<close>
  (the profile itself, or the resume and job profiles of a comparison) lists under each
  category only skills of the taxonomy's set for that category, none of them twice.
\<close>

theorem profiles_are_valid:
  assumes "analyze_skills resume_text job_description = Inr result"
  shows "list_all valid_profile (profiles_of result)"
  using analyze_skills_cases[OF assms]
  by (auto simp: valid_profile_found valid_profile_Nil resume_of_compare job_of_compare)

theorem profiles_are_valid_witness:
  "analyze_skills (PyStr ''Go'') PyNone = Inr (SkillProfile [(''programming_languages'', [''go''])])
   \<and> list_all valid_profile (profiles_of (SkillProfile [(''programming_languages'', [''go''])]))"
proof -
  have h: "analyze_skills (PyStr ''Go'') PyNone
     = Inr (SkillProfile [(''programming_languages'', [''go''])])"
    by code_simp
  from h profiles_are_valid[OF h] show ?thesis by (rule conjI)
qed




section \<open>Properties of the recommendation composer\<close>

text \<open>
  C5: the rules on the ATS score are an exclusive three-way tier. From the empty
  recommendations, a score of at least 80 adds the strength "Strong ATS compatibility"
  and nothing else; a score in [60, 80) adds a qualified strength and exactly two action
  items; a score below 60 adds the weakness "Needs ATS optimization" and exactly four
  action items. The three conditions exclude each other, so no score runs two branches.
\<close>

theorem ats_tier_exclusive:
  "(80 \<le> score \<longrightarrow>
      ats_tier score \<lparr>strengths = [], weaknesses = [], action_items = []\<rparr>
        = \<lparr>strengths = [''Strong ATS compatibility''], weaknesses = [], action_items = []\<rparr>)
   \<and> (60 \<le> score \<and> score < 80 \<longrightarrow>
      ats_tier score \<lparr>strengths = [], weaknesses = [], action_items = []\<rparr>
        = \<lparr>strengths = [''Good basic ATS formatting''], weaknesses = [],
           action_items = [''Add more industry-specific keywords'',
                           ''Enhance section headers for better visibility'']\<rparr>)
   \<and> (score < 60 \<longrightarrow>
      ats_tier score \<lparr>strengths = [], weaknesses = [], action_items = []\<rparr>
        = \<lparr>strengths = [], weaknesses = [''Needs ATS optimization''],
           action_items = [''Add relevant keywords from the job description'',
                           ''Improve section headers (Experience, Education, Skills)'',
                           ''Use bullet points for better readability'',
                           ''Include contact information and professional links'']\<rparr>)"
  by (simp add: ats_tier_def)

theorem ats_tier_exclusive_witness:
  "(80::real) \<le> 85
   \<and> ats_tier 85 \<lparr>strengths = [], weaknesses = [], action_items = []\<rparr>
        = \<lparr>strengths = [''Strong ATS compatibility''], weaknesses = [], action_items = []\<rparr>
   \<and> (60::real) \<le> 70 \<and> (70::real) < 80
   \<and> ats_tier 70 \<lparr>strengths = [], weaknesses = [], action_items = []\<rparr>
        = \<lparr>strengths = [''Good basic ATS formatting''], weaknesses = [],
           action_items = [''Add more industry-specific keywords'',
                           ''Enhance section headers for better visibility'']\<rparr>
   \<and> (40::real) < 60
   \<and> ats_tier 40 \<lparr>strengths = [], weaknesses = [], action_items = []\<rparr>
        = \<lparr>strengths = [], weaknesses = [''Needs ATS optimization''],
           action_items = [''Add relevant keywords from the job description'',
                           ''Improve section headers (Experience, Education, Skills)'',
                           ''Use bullet points for better readability'',
                           ''Include contact information and professional links'']\<rparr>"
  using ats_tier_exclusive[of 85] ats_tier_exclusive[of 70] ats_tier_exclusive[of 40]
  by simp

text \<open>
  C9: for every input the composer returns through the first of its two
  \<open>return recommendations\<close> statements, right after the format pass; no input reaches
  the second one, which changes nothing of what is returned.
\<close>

theorem second_return_unreachable:
  "generate_recommendations_flow skill_analysis ats_score llm_improvements
     = Returned FirstReturn (composed skill_analysis ats_score llm_improvements)
   \<and> generate_recommendations skill_analysis ats_score llm_improvements
     = Some (composed skill_analysis ats_score llm_improvements)
   \<and> (\<forall>rec. generate_recommendations_flow skill_analysis ats_score llm_improvements
              \<noteq> Returned SecondReturn rec)"
  by (simp add: generate_recommendations_flow_def generate_recommendations_def)

section \<open>Properties of the LLM fallback\<close>

lemma llm_try_body_cases:
  "llm_try_body engine r j a m s = Inl e \<longleftrightarrow>
     analyze_resume engine r j = Inl e
     \<or> (\<exists>v. analyze_resume engine r j = Inr v) \<and> analyze_score_matrix engine r j a m s = Inl e"
  by (auto simp: llm_try_body_def split: sum.splits)



section \<open>Duplicate-free action items\<close>

lemma py_in_iff_sublist: "py_in sub s \<longleftrightarrow> sublist sub s"
  by (induction s) (simp_all add: sublist_Cons_right)

lemma py_in_refl: "py_in s s"
  by (simp add: py_in_iff_sublist)












section \<open>Properties of the skill suggestions\<close>

lemma render_priority:
  "c \<in> set priority_categories \<Longrightarrow> map render_suggestion (map (Pair c) ss) = map (learn_suggestion c) ss"
  by (simp add: render_suggestion_def)

lemma render_other:
  "c \<notin> set priority_categories \<Longrightarrow> map render_suggestion (map (Pair c) ss) = map add_suggestion ss"
  by (simp add: render_suggestion_def)

lemma add_priority_plan:
  "add_priority missing
     = map render_suggestion
         (concat (map (\<lambda>category. map (Pair category) (take 2 (dict_get missing category)))
            priority_categories))"
proof -
  have "(case map_of missing c of None \<Rightarrow> [] | Some skills \<Rightarrow> map (learn_suggestion c) (take 2 skills))
          = map render_suggestion (map (Pair c) (take 2 (dict_get missing c)))"
    if "c \<in> set priority_categories" for c
    using render_priority[OF that] by (simp add: dict_get_def split: option.splits)
  then show ?thesis
    unfolding add_priority_def map_concat by (simp add: comp_def cong: map_cong)
qed

lemma remaining_plan:
  "list_all (\<lambda>(c, ss). c \<notin> set priority_categories) rest \<Longrightarrow>
   concat (map (\<lambda>(c, ss). map add_suggestion (take 1 ss)) rest)
     = map render_suggestion (concat (map (\<lambda>(c, ss). map (Pair c) (take 1 ss)) rest))"
proof (induction rest)
  case Nil
  then show ?case by simp
next
  case (Cons a rest)
  obtain c ss where a: "a = (c, ss)" by (cases a)
  have c: "c \<notin> set priority_categories" using Cons.prems by (simp add: a)
  have r: "list_all (\<lambda>(c, ss). c \<notin> set priority_categories) rest" using Cons.prems by simp
  show ?case using Cons.IH[OF r] render_other[OF c, of "take 1 ss"] by (simp add: a)
qed

lemma add_remaining_take:
  "0 \<le> n \<Longrightarrow>
   take (nat n) (add_remaining n rest suggestions)
     = take (nat n) (suggestions @ concat (map (\<lambda>(c, ss). map add_suggestion (take 1 ss)) rest))"
proof (induction rest arbitrary: suggestions)
  case Nil
  then show ?case by simp
next
  case (Cons a rest)
  obtain c ss where a: "a = (c, ss)" by (cases a)
  show ?case
  proof (cases "int (length suggestions) \<ge> n")
    case True
    then have "nat n \<le> length suggestions" by simp
    then show ?thesis using True by (simp add: a)
  next
    case False
    then show ?thesis using Cons.IH[OF Cons.prems, of "suggestions @ map add_suggestion (take 1 ss)"]
      by (simp add: a)
  qed
qed

lemma filter_nonpriority:
  "list_all (\<lambda>(c, ss). c \<notin> set priority_categories)
     (filter (\<lambda>(cat, skills). cat \<notin> set priority_categories) missing)"
  by (induction missing) auto

lemma suggestions_take_plan:
  assumes "0 \<le> n"
  shows "get_skill_suggestions (Some missing) (Some n)
           = Inr (map render_suggestion (take (nat n) (suggestion_plan missing)))"
proof -
  let ?P = "add_priority missing"
  let ?R = "filter (\<lambda>(cat, skills). cat \<notin> set priority_categories) missing"
  let ?S = "concat (map (\<lambda>(c, ss). map add_suggestion (take 1 ss)) ?R)"
  have plan: "map render_suggestion (suggestion_plan missing) = ?P @ ?S"
    unfolding suggestion_plan_def map_append
    by (simp only: add_priority_plan remaining_plan[OF filter_nonpriority])
  have "take (nat n) (if int (length ?P) < n then add_remaining n ?R ?P else ?P)
          = take (nat n) (?P @ ?S)"
  proof (cases "int (length ?P) < n")
    case True
    then show ?thesis using add_remaining_take[OF assms, of ?R ?P] by simp
  next
    case False
    then have "nat n \<le> length ?P" by simp
    then show ?thesis using False by simp
  qed
  then have "take (nat n) (if int (length ?P) < n then add_remaining n ?R ?P else ?P)
          = map render_suggestion (take (nat n) (suggestion_plan missing))"
    by (simp only: plan[symmetric] take_map)
  then show ?thesis using assms
    by (simp add: get_skill_suggestions_def get_skill_suggestions_body_def slice_to_def Let_def)
qed

lemma filter_take_length: "length (filter P (take k xs)) \<le> length (filter P xs)"
proof -
  have "filter P (take k xs @ drop k xs) = filter P (take k xs) @ filter P (drop k xs)"
    by (rule filter_append)
  then have "length (filter P xs) = length (filter P (take k xs)) + length (filter P (drop k xs))"
    by (simp only: append_take_drop_id length_append)
  then show ?thesis by simp
qed

lemma filter_Pair:
  "filter (\<lambda>p. fst p = c) (map (Pair c') xs) = (if c' = c then map (Pair c') xs else [])"
  by (induction xs) auto

lemma priority_part_count:
  "distinct cs \<Longrightarrow>
   length (filter (\<lambda>p. fst p = c) (concat (map (\<lambda>c'. map (Pair c') (f c')) cs)))
     = (if c \<in> set cs then length (f c) else 0)"
  by (induction cs) (auto simp: filter_Pair)

lemma remaining_part_count:
  "distinct (map fst rest) \<Longrightarrow>
   length (filter (\<lambda>p. fst p = c) (concat (map (\<lambda>(c', ss). map (Pair c') (take 1 ss)) rest)))
     \<le> (if c \<in> set (map fst rest) then 1 else 0)"
proof (induction rest)
  case Nil
  then show ?case by simp
next
  case (Cons a rest)
  obtain c' ss where a: "a = (c', ss)" by (cases a)
  have d: "distinct (map fst rest)" and n: "c' \<notin> set (map fst rest)"
    using Cons.prems by (simp_all add: a)
  have ih: "length (filter (\<lambda>p. fst p = c) (concat (map (\<lambda>(c', ss). map (Pair c') (take 1 ss)) rest)))
     \<le> (if c \<in> set (map fst rest) then 1 else 0)" using Cons.IH[OF d] .
  show ?case
  proof (cases "c' = c")
    case True
    then have "c \<notin> set (map fst rest)" using n by simp
    then have "length (filter (\<lambda>p. fst p = c) (concat (map (\<lambda>(c', ss). map (Pair c') (take 1 ss)) rest))) = 0"
      using ih by simp
    then show ?thesis using True by (simp add: a filter_Pair)
  next
    case False
    then show ?thesis using ih by (simp add: a filter_Pair)
  qed
qed

lemma priority_categories_distinct: "distinct priority_categories"
  by (simp add: priority_categories_def)

lemma plan_count:
  assumes "distinct (map fst missing)"
  shows "contributed category (suggestion_plan missing)
           \<le> (if category \<in> set priority_categories then 2 else 1)"
proof -
  let ?A = "concat (map (\<lambda>c. map (Pair c) (take 2 (dict_get missing c))) priority_categories)"
  let ?R = "filter (\<lambda>(cat, skills). cat \<notin> set priority_categories) missing"
  let ?B = "concat (map (\<lambda>(c, ss). map (Pair c) (take 1 ss)) ?R)"
  have dR: "distinct (map fst ?R)" using assms by (rule distinct_map_filter)
  have keysR: "set (map fst ?R) \<inter> set priority_categories = {}" by auto
  have a: "length (filter (\<lambda>p. fst p = category) ?A)
             = (if category \<in> set priority_categories then length (take 2 (dict_get missing category)) else 0)"
    using priority_categories_distinct by (rule priority_part_count)
  have b: "length (filter (\<lambda>p. fst p = category) ?B) \<le> (if category \<in> set (map fst ?R) then 1 else 0)"
    using dR by (rule remaining_part_count)
  have split: "contributed category (suggestion_plan missing)
          = length (filter (\<lambda>p. fst p = category) ?A) + length (filter (\<lambda>p. fst p = category) ?B)"
    by (simp add: contributed_def suggestion_plan_def)
  show ?thesis
  proof (cases "category \<in> set priority_categories")
    case True
    then have "category \<notin> set (map fst ?R)" using keysR by blast
    then have "length (filter (\<lambda>p. fst p = category) ?B) = 0" using b by simp
    moreover have "length (filter (\<lambda>p. fst p = category) ?A) \<le> 2" using a True by simp
    ultimately show ?thesis using True split by simp
  next
    case False
    then have "length (filter (\<lambda>p. fst p = category) ?A) = 0" using a by simp
    moreover have "length (filter (\<lambda>p. fst p = category) ?B) \<le> 1"
      using b by (simp split: if_splits)
    ultimately show ?thesis using False split by simp
  qed
qed

lemma plan_order:
  "\<exists>a b. take k (suggestion_plan missing) = a @ b
         \<and> list_all (\<lambda>p. fst p \<in> set priority_categories) a
         \<and> list_all (\<lambda>p. fst p \<notin> set priority_categories) b"
proof -
  let ?A = "concat (map (\<lambda>c. map (Pair c) (take 2 (dict_get missing c))) priority_categories)"
  let ?R = "filter (\<lambda>(cat, skills). cat \<notin> set priority_categories) missing"
  let ?B = "concat (map (\<lambda>(c, ss). map (Pair c) (take 1 ss)) ?R)"
  have A: "\<forall>p \<in> set ?A. fst p \<in> set priority_categories" by auto
  have B: "\<forall>p \<in> set ?B. fst p \<notin> set priority_categories" by auto
  have tA: "list_all (\<lambda>p. fst p \<in> set priority_categories) (take k ?A)"
    unfolding list_all_iff using A set_take_subset[of k ?A] by blast
  have tB: "list_all (\<lambda>p. fst p \<notin> set priority_categories) (take (k - length ?A) ?B)"
    unfolding list_all_iff using B set_take_subset[of "k - length ?A" ?B] by blast
  have "take k (suggestion_plan missing) = take k ?A @ take (k - length ?A) ?B"
    unfolding suggestion_plan_def by (rule take_append)
  then show ?thesis using tA tB by blast
qed

text \<open>
  C4, as the code has it: for every missing-skills dict (its keys distinct) and every
  limit that is not negative, \<open>get_skill_suggestions\<close> returns the first \<open>limit\<close>
  suggestions of the plan. So it returns at most \<open>limit\<close> suggestions, at most two from
  each priority category and at most one from each other category, and every suggestion
  of a priority category comes before every suggestion of another category; the
  priority categories come in their fixed order, the others in the order of the dict.
\<close>

theorem skill_suggestions_follow_plan:
  assumes "distinct (map fst missing)" and "0 \<le> n"
  shows "get_skill_suggestions (Some missing) (Some n)
           = Inr (map render_suggestion (take (nat n) (suggestion_plan missing)))
       \<and> int (length (map render_suggestion (take (nat n) (suggestion_plan missing)))) \<le> n
       \<and> (\<forall>category. contributed category (take (nat n) (suggestion_plan missing))
              \<le> (if category \<in> set priority_categories then 2 else 1))
       \<and> (\<exists>a b. take (nat n) (suggestion_plan missing) = a @ b
              \<and> list_all (\<lambda>p. fst p \<in> set priority_categories) a
              \<and> list_all (\<lambda>p. fst p \<notin> set priority_categories) b)"
proof (intro conjI allI)
  show "get_skill_suggestions (Some missing) (Some n)
           = Inr (map render_suggestion (take (nat n) (suggestion_plan missing)))"
    using assms(2) by (rule suggestions_take_plan)
  show "int (length (map render_suggestion (take (nat n) (suggestion_plan missing)))) \<le> n"
    using assms(2) by simp
  show "contributed category (take (nat n) (suggestion_plan missing))
          \<le> (if category \<in> set priority_categories then 2 else 1)" for category
  proof -
    have "contributed category (take (nat n) (suggestion_plan missing))
            \<le> contributed category (suggestion_plan missing)"
      unfolding contributed_def by (rule filter_take_length)
    then show ?thesis using plan_count[OF assms(1), of category] by (rule order_trans)
  qed
  show "\<exists>a b. take (nat n) (suggestion_plan missing) = a @ b
              \<and> list_all (\<lambda>p. fst p \<in> set priority_categories) a
              \<and> list_all (\<lambda>p. fst p \<notin> set priority_categories) b"
    by (rule plan_order)
qed

theorem skill_suggestions_follow_plan_witness:
  "distinct (map fst [(''soft_skills'', [''teamwork'', ''leadership'']),
                      (''web_technologies'', [''html'', ''css'', ''react'']),
                      (''programming_languages'', [''go''])])
   \<and> (0::int) \<le> 4
   \<and> get_skill_suggestions
        (Some [(''soft_skills'', [''teamwork'', ''leadership'']),
               (''web_technologies'', [''html'', ''css'', ''react'']),
               (''programming_languages'', [''go''])]) (Some 4)
      = Inr [''Consider learning go to improve your programming languages skills'',
             ''Consider learning html to improve your web technologies skills'',
             ''Consider learning css to improve your web technologies skills'',
             ''Consider adding teamwork to your skillset'']"
proof -
  let ?m = "[(''soft_skills'', [''teamwork'', ''leadership'']),
             (''web_technologies'', [''html'', ''css'', ''react'']),
             (''programming_languages'', [''go''])]"
  have h1: "distinct (map fst ?m)" by simp
  have h2: "(0::int) \<le> 4" by simp
  have e: "map render_suggestion (take (nat 4) (suggestion_plan ?m))
             = [''Consider learning go to improve your programming languages skills'',
                ''Consider learning html to improve your web technologies skills'',
                ''Consider learning css to improve your web technologies skills'',
                ''Consider adding teamwork to your skillset'']"
    by code_simp
  have "get_skill_suggestions (Some ?m) (Some 4)
          = Inr (map render_suggestion (take (nat 4) (suggestion_plan ?m)))"
    using skill_suggestions_follow_plan[OF h1 h2] by (rule conjunct1)
  then have r: "get_skill_suggestions (Some ?m) (Some 4)
      = Inr [''Consider learning go to improve your programming languages skills'',
             ''Consider learning html to improve your web technologies skills'',
             ''Consider learning css to improve your web technologies skills'',
             ''Consider adding teamwork to your skillset'']"
    by (simp only: e)
  show ?thesis using h1 h2 r by (intro conjI)
qed

text \<open>
  C4, as it is stated for every limit, fails at a negative one: with two missing
  programming languages and the limit -1, the slice \<open>suggestions[:-1]\<close> drops the last of
  the two suggestions and returns one, which is more than the limit.
\<close>

theorem skill_suggestions_negative_limit:
  "get_skill_suggestions (Some [(''programming_languages'', [''go'', ''rust''])]) (Some (- 1))
     = Inr [''Consider learning go to improve your programming languages skills'']
   \<and> \<not> int (length [''Consider learning go to improve your programming languages skills'']) \<le> - 1"
  by code_simp

end
